theory Spec2Isabelle
  imports Complex_Main
begin

section \<open>Python values and the operations the clients use on them\<close>

text \<open>
  The values a JSON parser hands to the clients, and the dictionaries the clients build
  from them. Integers are unbounded. A JSON number with a fraction is held by its exact
  rational value (the non-standard literals NaN and Infinity are outside the model).
  A dictionary is an association list in insertion order; its keys are compared the way
  Python compares hashable values (\<open>True == 1 == 1.0\<close>).
\<close>

datatype pyval =
    PNone
  | PBool bool
  | PInt int
  | PFloat rat
  | PStr string
  | PList "pyval list"
  | PDict "(pyval \<times> pyval) list"

type_synonym pydict = "(pyval \<times> pyval) list"

text \<open>
  Modelled from the spec: the exception classes \<open>serializationFailed\<close> and \<open>serverError\<close>
  of \<open>pymoe.errors\<close> are not among the sources; the specification gives each the raw body
  and the status code, which is what \<open>manga\<close> raises them with. The other constructors
  are Python's own exceptions: \<open>KeyError\<close> and \<open>TypeError\<close> come from subscripting,
  iterating and hashing, \<open>JSONDecodeError\<close> from \<open>r.json()\<close> on a body that is not JSON.
\<close>

datatype error =
    KeyError pyval
  | TypeError
  | JSONDecodeError
  | serializationFailed string int
  | serverError string int

definition and_then :: "error + 'a \<Rightarrow> ('a \<Rightarrow> error + 'b) \<Rightarrow> error + 'b" where
  "and_then m f = (case m of Inl e \<Rightarrow> Inl e | Inr v \<Rightarrow> f v)"

text \<open>Truth value of a Python object, as \<open>if x\<close>, \<open>not x\<close> and \<open>x or y\<close> test it.\<close>

fun truthy :: "pyval \<Rightarrow> bool" where
  "truthy PNone = False"
| "truthy (PBool b) = b"
| "truthy (PInt i) = (i \<noteq> 0)"
| "truthy (PFloat r) = (r \<noteq> 0)"
| "truthy (PStr s) = (s \<noteq> [])"
| "truthy (PList xs) = (xs \<noteq> [])"
| "truthy (PDict d) = (d \<noteq> [])"

fun hashable :: "pyval \<Rightarrow> bool" where
  "hashable (PList xs) = False"
| "hashable (PDict d) = False"
| "hashable v = True"

fun num_of :: "pyval \<Rightarrow> rat option" where
  "num_of (PBool b) = Some (if b then 1 else 0)"
| "num_of (PInt i) = Some (of_int i)"
| "num_of (PFloat r) = Some r"
| "num_of v = None"

text \<open>
  Python's \<open>==\<close> between two hashable values: numbers (booleans included) by value,
  everything else by type and content.
\<close>

definition key_eq :: "pyval \<Rightarrow> pyval \<Rightarrow> bool" where
  "key_eq a b =
     (case num_of a of
        Some x \<Rightarrow> (case num_of b of Some y \<Rightarrow> x = y | None \<Rightarrow> False)
      | None \<Rightarrow> (case num_of b of Some y \<Rightarrow> False | None \<Rightarrow> a = b))"

text \<open>\<open>d.get(k)\<close> on the association list: the entry whose key equals \<open>k\<close>.\<close>

fun dict_get :: "pydict \<Rightarrow> pyval \<Rightarrow> pyval option" where
  "dict_get [] k = None"
| "dict_get ((k', v') # d) k = (if key_eq k k' then Some v' else dict_get d k)"

text \<open>
  The store of \<open>d[k] = v\<close>: an entry with an equal key keeps its place and its key
  object and gets the new value; a new key goes to the end.
\<close>

fun dict_set :: "pydict \<Rightarrow> pyval \<Rightarrow> pyval \<Rightarrow> pydict" where
  "dict_set [] k v = [(k, v)]"
| "dict_set ((k', v') # d) k v =
     (if key_eq k k' then (k', v) # d else (k', v') # dict_set d k v)"

text \<open>\<open>d[k] = v\<close> on a dictionary: an unhashable key raises TypeError.\<close>

definition setitem :: "pydict \<Rightarrow> pyval \<Rightarrow> pyval \<Rightarrow> error + pydict" where
  "setitem d k v = (if hashable k then Inr (dict_set d k v) else Inl TypeError)"

text \<open>
  \<open>d[k1][k2] = v\<close>: \<open>d[k1]\<close> is read (KeyError when absent), and the object found is
  stored into; the clients only do this on dictionaries they have just created under
  \<open>k1\<close>, so the inner dictionary has no other owner.
\<close>

definition setitem2 :: "pydict \<Rightarrow> pyval \<Rightarrow> pyval \<Rightarrow> pyval \<Rightarrow> error + pydict" where
  "setitem2 d k1 k2 v =
     (case dict_get d k1 of
        None \<Rightarrow> Inl (KeyError k1)
      | Some (PDict inner) \<Rightarrow>
          and_then (setitem inner k2 v) (\<lambda>inner'. Inr (dict_set d k1 (PDict inner')))
      | Some _ \<Rightarrow> Inl TypeError)"

text \<open>
  \<open>obj['name']\<close> with a string literal as subscript: a dictionary looks the key up and
  raises KeyError when it is absent; a list or a string wants an integer index, and
  None, booleans and numbers cannot be subscripted: TypeError.
\<close>

fun getitem :: "pyval \<Rightarrow> string \<Rightarrow> error + pyval" where
  "getitem (PDict d) name =
     (case dict_get d (PStr name) of
        None \<Rightarrow> Inl (KeyError (PStr name))
      | Some v \<Rightarrow> Inr v)"
| "getitem v name = Inl TypeError"

text \<open>
  \<open>for item in obj\<close>: a list gives its elements, a dictionary its keys, a string its
  characters as one-character strings; anything else is not iterable.
\<close>

fun py_iter :: "pyval \<Rightarrow> error + pyval list" where
  "py_iter (PList xs) = Inr xs"
| "py_iter (PDict d) = Inr (map fst d)"
| "py_iter (PStr s) = Inr (map (\<lambda>c. PStr [c]) s)"
| "py_iter v = Inl TypeError"

fun starts_with :: "string \<Rightarrow> string \<Rightarrow> bool" where
  "starts_with s [] = True"
| "starts_with [] (p # ps) = False"
| "starts_with (c # s) (p # ps) = (c = p \<and> starts_with s ps)"

fun str_contains :: "string \<Rightarrow> string \<Rightarrow> bool" where
  "str_contains [] sub = (sub = [])"
| "str_contains (c # s) sub = (starts_with (c # s) sub \<or> str_contains s sub)"

text \<open>
  \<open>'name' in obj\<close> with a string literal on the left: key membership for a dictionary,
  element membership for a list, substring test for a string, TypeError otherwise.
\<close>

fun py_in :: "string \<Rightarrow> pyval \<Rightarrow> error + bool" where
  "py_in name (PDict d) = Inr (dict_get d (PStr name) \<noteq> None)"
| "py_in name (PList xs) = Inr (PStr name \<in> set xs)"
| "py_in name (PStr s) = Inr (str_contains s name)"
| "py_in name v = Inl TypeError"

text \<open>\<open>str(i)\<close> of an integer, as \<open>'{}'.format(i)\<close> writes it.\<close>

definition digit_char :: "nat \<Rightarrow> char" where
  "digit_char d = ''0123456789'' ! d"

fun str_nat :: "nat \<Rightarrow> string" where
  "str_nat n = (if n < 10 then [digit_char n] else str_nat (n div 10) @ [digit_char (n mod 10)])"

declare str_nat.simps [simp del]

definition str_int :: "int \<Rightarrow> string" where
  "str_int i = (if i < 0 then CHR ''-'' # str_nat (nat (- i)) else str_nat (nat i))"

section \<open>HTTP\<close>

text \<open>
  What the clients hand to \<open>requests.get\<close> and \<open>requests.post\<close>, and what they read of
  the response. The transport and the JSON parser are parameters of every operation:
  \<open>http\<close> maps the request to the response, \<open>loads\<close> maps a body to the parsed value,
  or to None when the body is not valid JSON. A request that gets no response at all
  (the transport itself raising) is outside the model.
\<close>

datatype http_method = GET | POST

record request =
  verb :: http_method
  url :: string
  params :: "(string \<times> pyval) list"
  headers :: "(string \<times> string) list"
  json :: "pyval option"

text \<open>The field \<open>body\<close> is \<open>r.text\<close>.\<close>

record response =
  status_code :: int
  body :: string

type_synonym transport = "request \<Rightarrow> response"
type_synonym parser = "string \<Rightarrow> pyval option"

text \<open>\<open>r.json()\<close>\<close>

definition response_json :: "parser \<Rightarrow> response \<Rightarrow> error + pyval" where
  "response_json loads r = (case loads (body r) of None \<Rightarrow> Inl JSONDecodeError | Some v \<Rightarrow> Inr v)"

text \<open>\<open>x or default\<close> for an optional string: None and the empty string are false.\<close>

definition or_default :: "string option \<Rightarrow> string \<Rightarrow> string" where
  "or_default x d = (case x of None \<Rightarrow> d | Some s \<Rightarrow> if s = [] then d else s)"

section \<open>The MyAnimeList client (class \<open>Mal\<close>)\<close>

record settings =
  header :: "(string \<times> string) list"
  apiurl :: string
  default_fields :: string

text \<open>\<open>Mal.__init__\<close>\<close>

definition Mal_init :: "string \<Rightarrow> settings" where
  "Mal_init apikey =
     \<lparr> header =
         [(''Content-Type'', ''application/json''),
          (''User-Agent'', ''Pymoe (github.com/ccubed/PyMoe)''),
          (''Accept'', ''application/json''),
          (''X-MAL-CLIENT-ID'', apikey)],
       apiurl = ''https://api.myanimelist.net/v2/'',
       default_fields =
         ''id,title,main_picture,alternative_titles,start_date,end_date,nsfw,genres,status,media_type,broadcast'' \<rparr>"

text \<open>
  The loop of \<open>search\<close> and \<open>seasonal\<close> (the same three lines in both):
  \<^verbatim>\<open>for item in jsd['data']: rdict[item['node']['title']] = item['node']\<close>
  The right-hand side is evaluated first, then the subscript of the target, then the
  store hashes the key.
\<close>

fun title_loop :: "pyval list \<Rightarrow> pydict \<Rightarrow> error + pydict" where
  "title_loop [] rdict = Inr rdict"
| "title_loop (item # items) rdict =
     and_then (getitem item ''node'') (\<lambda>node.
     and_then (getitem node ''title'') (\<lambda>title.
     and_then (setitem rdict title node) (\<lambda>rdict'.
     title_loop items rdict')))"

text \<open>
  The loop of \<open>ranking\<close>:
  \<^verbatim>\<open>for item in jsd['data']: rdict['ranking'][item['ranking']['rank']] = item['node']\<close>
\<close>

fun rank_loop :: "pyval list \<Rightarrow> pydict \<Rightarrow> error + pydict" where
  "rank_loop [] rdict = Inr rdict"
| "rank_loop (item # items) rdict =
     and_then (getitem item ''node'') (\<lambda>node.
     and_then (getitem item ''ranking'') (\<lambda>ranking.
     and_then (getitem ranking ''rank'') (\<lambda>rank.
     and_then (setitem2 rdict (PStr ''ranking'') rank node) (\<lambda>rdict'.
     rank_loop items rdict'))))"

text \<open>
  The three lines that end \<open>search\<close>, \<open>ranking\<close> and \<open>seasonal\<close> alike:
  \<^verbatim>\<open>
  rdict['paging'] = {}
  rdict['paging']['previous'] = (offset - limit) if offset > 0 else None
  rdict['paging']['next'] = (offset + limit) if 'next' in jsd['paging'] else None
  \<close>
\<close>

definition set_paging :: "pydict \<Rightarrow> pyval \<Rightarrow> int \<Rightarrow> int \<Rightarrow> error + pydict" where
  "set_paging rdict jsd offset limit =
     and_then (setitem rdict (PStr ''paging'') (PDict [])) (\<lambda>rdict1.
     and_then (setitem2 rdict1 (PStr ''paging'') (PStr ''previous'')
                 (if offset > 0 then PInt (offset - limit) else PNone)) (\<lambda>rdict2.
     and_then (getitem jsd ''paging'') (\<lambda>paging.
     and_then (py_in ''next'' paging) (\<lambda>has_next.
     setitem2 rdict2 (PStr ''paging'') (PStr ''next'')
       (if has_next then PInt (offset + limit) else PNone)))))"

definition search_request :: "settings \<Rightarrow> string \<Rightarrow> int \<Rightarrow> int \<Rightarrow> string option \<Rightarrow> pyval \<Rightarrow> request" where
  "search_request self name limit offset fields' nsfw =
     \<lparr> verb = GET,
       url = apiurl self @ ''anime'',
       params =
         [(''q'', PStr name),
          (''fields'', PStr (or_default fields' ''id,title,main_picture,alternative_titles,start_date'')),
          (''limit'', PInt limit),
          (''offset'', PInt offset),
          (''nsfw'', PStr (if \<not> truthy nsfw then ''false'' else ''true''))],
       headers = header self,
       json = None \<rparr>"

definition search ::
  "transport \<Rightarrow> parser \<Rightarrow> settings \<Rightarrow> string \<Rightarrow> int \<Rightarrow> int \<Rightarrow> string option \<Rightarrow> pyval \<Rightarrow> error + pyval" where
  "search http loads self name limit offset fields' nsfw =
     (let r = http (search_request self name limit offset fields' nsfw) in
      if status_code r \<noteq> 200 then Inr PNone
      else
        and_then (response_json loads r) (\<lambda>jsd.
        and_then (getitem jsd ''data'') (\<lambda>data.
        and_then (py_iter data) (\<lambda>items.
        and_then (title_loop items []) (\<lambda>rdict.
        and_then (set_paging rdict jsd offset limit) (\<lambda>rdict'.
        Inr (PDict rdict')))))))"

definition get_request :: "settings \<Rightarrow> string \<Rightarrow> string option \<Rightarrow> request" where
  "get_request self id' fields' =
     \<lparr> verb = GET,
       url = apiurl self @ ''anime/'' @ id',
       params =
         [(''fields'', PStr (or_default fields' (default_fields self))),
          (''nsfw'', PStr ''true'')],
       headers = header self,
       json = None \<rparr>"

definition get :: "transport \<Rightarrow> parser \<Rightarrow> settings \<Rightarrow> string \<Rightarrow> string option \<Rightarrow> error + pyval" where
  "get http loads self id' fields' =
     (let r = http (get_request self id' fields') in
      if status_code r \<noteq> 200 then Inr PNone
      else response_json loads r)"

definition ranking_request :: "settings \<Rightarrow> string \<Rightarrow> int \<Rightarrow> int \<Rightarrow> string option \<Rightarrow> pyval \<Rightarrow> request" where
  "ranking_request self rank_type limit offset fields' nsfw =
     \<lparr> verb = GET,
       url = apiurl self @ ''anime/ranking'',
       params =
         [(''ranking_type'', PStr rank_type),
          (''limit'', PInt limit),
          (''offset'', PInt offset),
          (''fields'', PStr (or_default fields' ''id,title,main_picture,alternative_titles,start_date'')),
          (''nsfw'', PStr (if \<not> truthy nsfw then ''false'' else ''true''))],
       headers = header self,
       json = None \<rparr>"

definition ranking ::
  "transport \<Rightarrow> parser \<Rightarrow> settings \<Rightarrow> string \<Rightarrow> int \<Rightarrow> int \<Rightarrow> string option \<Rightarrow> pyval \<Rightarrow> error + pyval" where
  "ranking http loads self rank_type limit offset fields' nsfw =
     (let r = http (ranking_request self rank_type limit offset fields' nsfw) in
      if status_code r \<noteq> 200 then Inr PNone
      else
        and_then (response_json loads r) (\<lambda>jsd.
        and_then (setitem [] (PStr ''ranking'') (PDict [])) (\<lambda>rdict0.
        and_then (getitem jsd ''data'') (\<lambda>data.
        and_then (py_iter data) (\<lambda>items.
        and_then (rank_loop items rdict0) (\<lambda>rdict.
        and_then (set_paging rdict jsd offset limit) (\<lambda>rdict'.
        Inr (PDict rdict'))))))))"

text \<open>
  The clock. \<open>seasonal\<close> calls \<open>date.today().month\<close> anew in each test of its
  \<open>if\<close>/\<open>elif\<close> chain, so a call reads the clock up to three times: \<open>today k\<close> is
  the month that the reading number \<open>k\<close> of the call returns (\<open>k\<close> = 0, 1, 2).
\<close>

type_synonym clock = "nat \<Rightarrow> int"

text \<open>
  The season \<open>seasonal\<close> puts into the URL. The test \<open>if not season\<close> takes the derived
  season for None and for the empty string; the second reading of the clock happens only
  when the first test has failed, the third only when the second has.
\<close>

definition myseason :: "clock \<Rightarrow> string option \<Rightarrow> string" where
  "myseason today season =
     (case season of
        Some s \<Rightarrow>
          if s \<noteq> [] then s
          else if today 0 \<le> 3 then ''winter''
          else if today 1 \<le> 6 then ''spring''
          else if today 2 \<le> 9 then ''summer''
          else ''fall''
      | None \<Rightarrow>
          if today 0 \<le> 3 then ''winter''
          else if today 1 \<le> 6 then ''spring''
          else if today 2 \<le> 9 then ''summer''
          else ''fall'')"

definition seasonal_request ::
  "clock \<Rightarrow> settings \<Rightarrow> int \<Rightarrow> string option \<Rightarrow> string \<Rightarrow> int \<Rightarrow> int \<Rightarrow> string option \<Rightarrow> pyval \<Rightarrow> request" where
  "seasonal_request today self year season sort' limit offset fields' nsfw =
     \<lparr> verb = GET,
       url = apiurl self @ ''anime/season/'' @ str_int year @ ''/'' @ myseason today season,
       params =
         [(''sort'', PStr sort'),
          (''limit'', PInt limit),
          (''offset'', PInt offset),
          (''fields'', PStr (or_default fields' ''id,title,main_picture,alternative_titles,start_date''))],
       headers = header self,
       json = None \<rparr>"

definition seasonal ::
  "transport \<Rightarrow> parser \<Rightarrow> clock \<Rightarrow> settings \<Rightarrow> int \<Rightarrow> string option \<Rightarrow> string \<Rightarrow> int \<Rightarrow> int \<Rightarrow>
   string option \<Rightarrow> pyval \<Rightarrow> error + pyval" where
  "seasonal http loads today self year season sort' limit offset fields' nsfw =
     (let r = http (seasonal_request today self year season sort' limit offset fields' nsfw) in
      if status_code r \<noteq> 200 then Inr PNone
      else
        and_then (response_json loads r) (\<lambda>jsd.
        and_then (getitem jsd ''data'') (\<lambda>data.
        and_then (py_iter data) (\<lambda>items.
        and_then (title_loop items []) (\<lambda>rdict.
        and_then (set_paging rdict jsd offset limit) (\<lambda>rdict'.
        Inr (PDict rdict')))))))"

section \<open>The AniList manga search (function \<open>manga\<close>)\<close>

definition anilist_header :: "(string \<times> string) list" where
  "anilist_header =
     [(''Content-Type'', ''application/json''),
      (''User-Agent'', ''Pymoe (github.com/ccubed/PyMoe)''),
      (''Accept'', ''application/json'')]"

definition anilist_apiurl :: string where
  "anilist_apiurl = ''https://graphql.anilist.co''"

definition query_string :: string where
  "query_string =
      ''        query( $query: String, $page: Int, $perPage: Int ){\<newline>'' @
      ''            Page ( page: $page, perPage: $perPage ) {\<newline>'' @
      ''                pageInfo {\<newline>'' @
      ''                    currentPage\<newline>'' @
      ''                    hasNextPage\<newline>'' @
      ''                }\<newline>'' @
      ''                media ( search: $query, type: MANGA ){\<newline>'' @
      ''                    id\<newline>'' @
      ''                    idMal\<newline>'' @
      ''                    title {\<newline>'' @
      ''                        romaji\<newline>'' @
      ''                        english\<newline>'' @
      ''                    }\<newline>'' @
      ''                    coverImage {\<newline>'' @
      ''                        extralarge\<newline>'' @
      ''                        large\<newline>'' @
      ''                        medium\<newline>'' @
      ''                        color\<newline>'' @
      ''                    }\<newline>'' @
      ''                    status\<newline>'' @
      ''                    description\<newline>'' @
      ''                    startDate {\<newline>'' @
      ''                        year\<newline>'' @
      ''                        month\<newline>'' @
      ''                        day\<newline>'' @
      ''                    }\<newline>'' @
      ''                    endDate {\<newline>'' @
      ''                        year\<newline>'' @
      ''                        month\<newline>'' @
      ''                        day\<newline>'' @
      ''                    }\<newline>'' @
      ''                    averageScore\<newline>'' @
      ''                    popularity\<newline>'' @
      ''                    chapters\<newline>'' @
      ''                    volumes\<newline>'' @
      ''                    genres\<newline>'' @
      ''                    hashtag\<newline>'' @
      ''                    isAdult\<newline>'' @
      ''                    averageScore\<newline>'' @
      ''                    synonyms\<newline>'' @
      ''                    siteUrl\<newline>'' @
      ''                }\<newline>'' @
      ''            }\<newline>'' @
      ''        }    \<newline>'' @
      ''    ''"

definition json_params :: "string \<Rightarrow> int \<Rightarrow> int \<Rightarrow> pyval" where
  "json_params term page perPage =
     PDict
       [(PStr ''query'', PStr query_string),
        (PStr ''variables'',
         PDict
           [(PStr ''query'', PStr term),
            (PStr ''page'', PInt page),
            (PStr ''perPage'', PInt perPage)])]"

definition manga_request :: "string \<Rightarrow> int \<Rightarrow> int \<Rightarrow> request" where
  "manga_request term page perPage =
     \<lparr> verb = POST,
       url = anilist_apiurl,
       params = [],
       headers = anilist_header,
       json = Some (json_params term page perPage) \<rparr>"

text \<open>
  Modelled from the spec: the class \<open>anilistWrapper\<close> of \<open>pymoe.helpers\<close> is not among the
  sources; the specification describes the Continuation Wrapper as the object that owns
  the results together with the last-sent query payload, the headers and the endpoint
  URL, so the object built by \<open>anilistWrapper(media, json_params, header, apiurl)\<close> is the
  record of these four arguments. \<open>Plain\<close> is the other thing \<open>manga\<close> returns: the media
  value of the page as it is.
\<close>

datatype manga_result =
    Plain pyval
  | anilistWrapper pyval pyval "(string \<times> string) list" string

definition manga :: "transport \<Rightarrow> parser \<Rightarrow> string \<Rightarrow> int \<Rightarrow> int \<Rightarrow> error + manga_result" where
  "manga http loads term page perPage =
     (let r = http (manga_request term page perPage) in
      case loads (body r) of
        None \<Rightarrow> Inl (serializationFailed (body r) (status_code r))
      | Some jsd \<Rightarrow>
          and_then (py_in ''errors'' jsd) (\<lambda>has_errors.
          if has_errors then Inl (serverError (body r) (status_code r))
          else
            and_then (getitem jsd ''data'') (\<lambda>d.
            and_then (getitem d ''Page'') (\<lambda>pg.
            and_then (getitem pg ''pageInfo'') (\<lambda>info.
            and_then (getitem info ''hasNextPage'') (\<lambda>hasNextPage.
            if truthy hasNextPage
            then
              and_then (getitem jsd ''data'') (\<lambda>d'.
              and_then (getitem d' ''Page'') (\<lambda>pg'.
              and_then (getitem pg' ''media'') (\<lambda>media.
              Inr (anilistWrapper media (json_params term page perPage)
                     anilist_header anilist_apiurl))))
            else
              and_then (getitem jsd ''data'') (\<lambda>d'.
              and_then (getitem d' ''Page'') (\<lambda>pg'.
              and_then (getitem pg' ''media'') (\<lambda>media.
              Inr (Plain media))))))))))"

section \<open>Reading a result\<close>

text \<open>
  \<open>result['paging'][name]\<close> as a caller reads it off a returned mapping; None here means
  that the mapping has no such entry (a field holding Python's None is \<open>Some PNone\<close>).
\<close>

definition paging_field :: "pyval \<Rightarrow> string \<Rightarrow> pyval option" where
  "paging_field res name =
     (case res of
        PDict rd \<Rightarrow>
          (case dict_get rd (PStr ''paging'') of
             Some (PDict pg) \<Rightarrow> dict_get pg (PStr name)
           | _ \<Rightarrow> None)
      | _ \<Rightarrow> None)"

text \<open>
  The upstream payload reports a further page when its paging envelope contains
  \<open>next\<close>; for an envelope that is a JSON object this is the presence of the key.
\<close>

definition reports_next :: "pyval \<Rightarrow> bool" where
  "reports_next jsd =
     (case getitem jsd ''paging'' of
        Inl e \<Rightarrow> False
      | Inr paging \<Rightarrow> (case py_in ''next'' paging of Inl e \<Rightarrow> False | Inr b \<Rightarrow> b))"

text \<open>
  The Paging Cursor as the specification words it:
  \<^verbatim>\<open>
  previous = (offset - limit) if offset > 0 else NONE
  next     = (offset + limit) if upstream_has_next_page else NONE
  \<close>
\<close>

definition paging_cursor :: "int \<Rightarrow> int \<Rightarrow> bool \<Rightarrow> pyval" where
  "paging_cursor offset limit has_next =
     PDict
       [(PStr ''previous'', if offset > 0 then PInt (offset - limit) else PNone),
        (PStr ''next'', if has_next then PInt (offset + limit) else PNone)]"

text \<open>The media record of an item of the payload, and the title it is filed under.\<close>

definition node_of :: "pyval \<Rightarrow> error + pyval" where
  "node_of item = getitem item ''node''"

definition title_of :: "pyval \<Rightarrow> error + pyval" where
  "title_of item = and_then (getitem item ''node'') (\<lambda>node. getitem node ''title'')"

definition is_plain :: "error + manga_result \<Rightarrow> bool" where
  "is_plain res = (case res of Inr (Plain media) \<Rightarrow> True | _ \<Rightarrow> False)"

definition is_wrapper :: "error + manga_result \<Rightarrow> bool" where
  "is_wrapper res = (case res of Inr (anilistWrapper media payload hdrs u) \<Rightarrow> True | _ \<Rightarrow> False)"

text \<open>
  What the specification says of the two fields of the cursor, for a call with the given
  \<open>offset\<close> and \<open>limit\<close> that returned \<open>res\<close> from the payload \<open>jsd\<close>.
\<close>

definition previous_as_specified :: "int \<Rightarrow> int \<Rightarrow> pyval \<Rightarrow> bool" where
  "previous_as_specified offset limit res =
     (paging_field res ''previous'' = Some (if offset > 0 then PInt (offset - limit) else PNone) \<and>
      (paging_field res ''previous'' = Some PNone) = (offset \<le> 0))"

definition next_as_specified :: "int \<Rightarrow> int \<Rightarrow> pyval \<Rightarrow> pyval \<Rightarrow> bool" where
  "next_as_specified offset limit jsd res =
     (paging_field res ''next'' = Some (if reports_next jsd then PInt (offset + limit) else PNone) \<and>
      (paging_field res ''next'' = Some PNone) = (\<not> reports_next jsd) \<and>
      (paging_field res ''next'' = Some (PInt (offset + limit))) = reports_next jsd)"

text \<open>\<open>v[name1][name2]...\<close>, the chain of subscripts that reads a field of a payload.\<close>

fun lookup_path :: "pyval \<Rightarrow> string list \<Rightarrow> error + pyval" where
  "lookup_path v [] = Inr v"
| "lookup_path v (name # names) = and_then (getitem v name) (\<lambda>v'. lookup_path v' names)"

text \<open>
  A returned mapping holds the record of a payload item under the item's title, and it
  holds a cursor under the reserved key.
\<close>

definition holds_record :: "pyval \<Rightarrow> pyval \<Rightarrow> bool" where
  "holds_record res item =
     (case res of
        PDict rd \<Rightarrow>
          (case title_of item of
             Inl e \<Rightarrow> False
           | Inr t \<Rightarrow> (case node_of item of Inl e \<Rightarrow> False | Inr n \<Rightarrow> dict_get rd t = Some n))
      | _ \<Rightarrow> False)"

definition holds_cursor :: "pyval \<Rightarrow> pyval \<Rightarrow> bool" where
  "holds_cursor res c =
     (case res of PDict rd \<Rightarrow> dict_get rd (PStr ''paging'') = Some c | _ \<Rightarrow> False)"

text \<open>
  An item keeps its entry when its title is not the reserved key and none of the items
  after it in the payload has an equal title.
\<close>

definition survives :: "pyval \<Rightarrow> pyval list \<Rightarrow> bool" where
  "survives item later =
     (case title_of item of
        Inl e \<Rightarrow> False
      | Inr t \<Rightarrow>
          t \<noteq> PStr ''paging'' \<and>
          list_all (\<lambda>item'. case title_of item' of Inl e \<Rightarrow> True | Inr t' \<Rightarrow> \<not> key_eq t' t) later)"

text \<open>
  Every reading of the clock that a call makes shows the same month: the first reading
  is always made, the second only after the first test has failed (the month is past 3),
  the third only after the second has failed (the month is past 6). And the URL of a
  season of a year.
\<close>

definition month_is :: "clock \<Rightarrow> int \<Rightarrow> bool" where
  "month_is today month =
     (today 0 = month \<and> (3 < month \<longrightarrow> today 1 = month) \<and> (6 < month \<longrightarrow> today 2 = month))"

definition season_url :: "settings \<Rightarrow> int \<Rightarrow> string \<Rightarrow> string" where
  "season_url self year s = apiurl self @ ''anime/season/'' @ str_int year @ ''/'' @ s"

section \<open>Sample responses\<close>

text \<open>
  Transports that answer every request alike, with a given response or with a given
  status and body, and a parser that knows one body and rejects every other text.
\<close>

definition reply :: "response \<Rightarrow> transport" where
  "reply r req = r"

definition respond :: "int \<Rightarrow> string \<Rightarrow> transport" where
  "respond st b req = \<lparr> status_code = st, body = b \<rparr>"

definition parse_as :: "string \<Rightarrow> pyval \<Rightarrow> parser" where
  "parse_as b v s = (if s = b then Some v else None)"

text \<open>
  A clock that shows one month at every reading, and the clock of a call during which
  December turns into January after the first reading.
\<close>

definition steady :: "int \<Rightarrow> clock" where
  "steady month k = month"

definition rollover :: clock where
  "rollover k = (if k = 0 then 12 else 1)"

definition naruto :: pyval where
  "naruto = PDict [(PStr ''id'', PInt 20), (PStr ''title'', PStr ''Naruto'')]"

definition bleach :: pyval where
  "bleach = PDict [(PStr ''id'', PInt 269), (PStr ''title'', PStr ''Bleach'')]"

definition mal_page_body :: string where
  \<open>mal_page_body =
     ''{"data": [{"node": {"id": 20, "title": "Naruto"}, "ranking": {"rank": 1}}, '' @
     ''{"node": {"id": 269, "title": "Bleach"}, "ranking": {"rank": 2}}], '' @
     ''"paging": {"next": "https://api.myanimelist.net/v2/anime?offset=30"}}''\<close>

definition naruto_item :: pyval where
  "naruto_item = PDict [(PStr ''node'', naruto), (PStr ''ranking'', PDict [(PStr ''rank'', PInt 1)])]"

definition bleach_item :: pyval where
  "bleach_item = PDict [(PStr ''node'', bleach), (PStr ''ranking'', PDict [(PStr ''rank'', PInt 2)])]"

definition mal_page :: pyval where
  "mal_page =
     PDict
       [(PStr ''data'', PList [naruto_item, bleach_item]),
        (PStr ''paging'',
         PDict [(PStr ''next'', PStr ''https://api.myanimelist.net/v2/anime?offset=30'')])]"

text \<open>What the three paginated operations return for that page (see the lemmas below).\<close>

definition search_result :: pyval where
  "search_result =
     PDict
       [(PStr ''Naruto'', naruto),
        (PStr ''Bleach'', bleach),
        (PStr ''paging'', PDict [(PStr ''previous'', PInt 10), (PStr ''next'', PInt 30)])]"

definition ranking_result :: pyval where
  "ranking_result =
     PDict
       [(PStr ''ranking'', PDict [(PInt 1, naruto), (PInt 2, bleach)]),
        (PStr ''paging'', PDict [(PStr ''previous'', PNone), (PStr ''next'', PInt 10)])]"

definition seasonal_result :: pyval where
  "seasonal_result =
     PDict
       [(PStr ''Naruto'', naruto),
        (PStr ''Bleach'', bleach),
        (PStr ''paging'', PDict [(PStr ''previous'', PInt (- 5)), (PStr ''next'', PInt 15)])]"

text \<open>
  A last page whose only record is titled \<open>paging\<close>, a last page with two records of
  one title, and what \<open>search\<close> and \<open>seasonal\<close> return for them.
\<close>

definition paging_node :: pyval where
  "paging_node = PDict [(PStr ''id'', PInt 7), (PStr ''title'', PStr ''paging'')]"

definition paging_item :: pyval where
  "paging_item = PDict [(PStr ''node'', paging_node)]"

definition collide_body :: string where
  \<open>collide_body = ''{"data": [{"node": {"id": 7, "title": "paging"}}], "paging": {}}''\<close>

definition collide_page :: pyval where
  "collide_page = PDict [(PStr ''data'', PList [paging_item]), (PStr ''paging'', PDict [])]"

definition collide_result :: pyval where
  "collide_result =
     PDict [(PStr ''paging'', PDict [(PStr ''previous'', PNone), (PStr ''next'', PNone)])]"

definition kanon1 :: pyval where
  "kanon1 = PDict [(PStr ''id'', PInt 144), (PStr ''title'', PStr ''Kanon'')]"

definition kanon2 :: pyval where
  "kanon2 = PDict [(PStr ''id'', PInt 1530), (PStr ''title'', PStr ''Kanon'')]"

definition kanon1_item :: pyval where
  "kanon1_item = PDict [(PStr ''node'', kanon1)]"

definition kanon2_item :: pyval where
  "kanon2_item = PDict [(PStr ''node'', kanon2)]"

definition twins_body :: string where
  \<open>twins_body =
     ''{"data": [{"node": {"id": 144, "title": "Kanon"}}, '' @
     ''{"node": {"id": 1530, "title": "Kanon"}}], "paging": {}}''\<close>

definition twins_page :: pyval where
  "twins_page =
     PDict [(PStr ''data'', PList [kanon1_item, kanon2_item]), (PStr ''paging'', PDict [])]"

definition twins_result :: pyval where
  "twins_result =
     PDict
       [(PStr ''Kanon'', kanon2),
        (PStr ''paging'', PDict [(PStr ''previous'', PNone), (PStr ''next'', PNone)])]"

text \<open>AniList answers: a page with a successor, a last page, a rejected query, no JSON.\<close>

definition one_piece :: pyval where
  "one_piece =
     PDict [(PStr ''id'', PInt 30013), (PStr ''title'', PDict [(PStr ''romaji'', PStr ''ONE PIECE'')])]"

definition manga_page_body :: string where
  \<open>manga_page_body =
     ''{"data": {"Page": {"pageInfo": {"currentPage": 1, "hasNextPage": true}, '' @
     ''"media": [{"id": 30013, "title": {"romaji": "ONE PIECE"}}]}}}''\<close>

definition manga_page :: "bool \<Rightarrow> pyval" where
  "manga_page has_next =
     PDict
       [(PStr ''data'',
         PDict
           [(PStr ''Page'',
             PDict
               [(PStr ''pageInfo'',
                 PDict [(PStr ''currentPage'', PInt 1), (PStr ''hasNextPage'', PBool has_next)]),
                (PStr ''media'', PList [one_piece])])])]"

definition manga_last_body :: string where
  \<open>manga_last_body =
     ''{"data": {"Page": {"pageInfo": {"currentPage": 1, "hasNextPage": false}, '' @
     ''"media": [{"id": 30013, "title": {"romaji": "ONE PIECE"}}]}}}''\<close>

definition rejected_body :: string where
  \<open>rejected_body = ''{"errors": [{"message": "Too Many Requests.", "status": 429}], "data": null}''\<close>

definition rejected_dict :: pydict where
  "rejected_dict =
     [(PStr ''errors'',
       PList [PDict [(PStr ''message'', PStr ''Too Many Requests.''), (PStr ''status'', PInt 429)]]),
      (PStr ''data'', PNone)]"

definition gateway_body :: string where
  "gateway_body = ''<html><body><h1>502 Bad Gateway</h1></body></html>''"

section \<open>Basic facts\<close>

lemma and_then_simps [simp]:
  "and_then (Inr v) f = f v"
  "and_then (Inl e) f = Inl e"
  by (simp_all add: and_then_def)

lemma and_then_Inr_iff: "and_then m f = Inr r \<longleftrightarrow> (\<exists>v. m = Inr v \<and> f v = Inr r)"
  by (cases m) simp_all

lemma key_eq_PStr [simp]:
  "key_eq (PStr s) k \<longleftrightarrow> k = PStr s"
  "key_eq k (PStr s) \<longleftrightarrow> k = PStr s"
  by (cases k; auto simp: key_eq_def)+

lemma key_eq_sym: "key_eq a b \<Longrightarrow> key_eq b a"
  by (auto simp: key_eq_def split: option.splits)

lemma key_eq_trans: "key_eq a b \<Longrightarrow> key_eq b c \<Longrightarrow> key_eq a c"
  by (auto simp: key_eq_def split: option.splits)

lemma key_eq_refl [simp]: "key_eq a a"
  by (auto simp: key_eq_def split: option.splits)

text \<open>Reading a dictionary after a store: the stored key answers with the new value.\<close>

lemma dict_get_dict_set:
  "dict_get (dict_set d k v) q = (if key_eq q k then Some v else dict_get d q)"
  by (induction d) (auto; meson key_eq_sym key_eq_trans)+

lemma dict_set_twice: "dict_set (dict_set d k v) k w = dict_set d k w"
  by (induction d) auto

subsection \<open>The cursor written by the paginated operations\<close>

lemma set_paging_eq:
  "set_paging rdict jsd offset limit =
     and_then (getitem jsd ''paging'') (\<lambda>paging.
     and_then (py_in ''next'' paging) (\<lambda>has_next.
       Inr (dict_set rdict (PStr ''paging'') (paging_cursor offset limit has_next))))"
  by (simp add: set_paging_def setitem_def setitem2_def dict_get_dict_set dict_set_twice
      paging_cursor_def)

lemma set_paging_Inr:
  assumes "set_paging rdict jsd offset limit = Inr rd"
  shows "rd = dict_set rdict (PStr ''paging'') (paging_cursor offset limit (reports_next jsd))"
  using assms
  by (auto simp: set_paging_eq and_then_Inr_iff reports_next_def)

text \<open>A call that returns a mapping has passed every step of the operation.\<close>

lemma search_success:
  assumes "search http loads self name limit offset fields' nsfw = Inr res" "res \<noteq> PNone"
  obtains jsd items rdict where
    "loads (body (http (search_request self name limit offset fields' nsfw))) = Some jsd"
    "and_then (getitem jsd ''data'') py_iter = Inr items"
    "title_loop items [] = Inr rdict"
    "res = PDict (dict_set rdict (PStr ''paging'') (paging_cursor offset limit (reports_next jsd)))"
  using assms
  by (auto simp: search_def Let_def and_then_Inr_iff response_json_def
      split: if_splits option.splits dest!: set_paging_Inr)

lemma seasonal_success:
  assumes "seasonal http loads today self year season sort' limit offset fields' nsfw = Inr res"
    "res \<noteq> PNone"
  obtains jsd items rdict where
    "loads (body (http (seasonal_request today self year season sort' limit offset fields' nsfw)))
       = Some jsd"
    "and_then (getitem jsd ''data'') py_iter = Inr items"
    "title_loop items [] = Inr rdict"
    "res = PDict (dict_set rdict (PStr ''paging'') (paging_cursor offset limit (reports_next jsd)))"
  using assms
  by (auto simp: seasonal_def Let_def and_then_Inr_iff response_json_def
      split: if_splits option.splits dest!: set_paging_Inr)

lemma ranking_success:
  assumes "ranking http loads self rank_type limit offset fields' nsfw = Inr res" "res \<noteq> PNone"
  obtains jsd items rdict where
    "loads (body (http (ranking_request self rank_type limit offset fields' nsfw))) = Some jsd"
    "and_then (getitem jsd ''data'') py_iter = Inr items"
    "rank_loop items [(PStr ''ranking'', PDict [])] = Inr rdict"
    "res = PDict (dict_set rdict (PStr ''paging'') (paging_cursor offset limit (reports_next jsd)))"
  using assms
  by (auto simp: ranking_def Let_def and_then_Inr_iff response_json_def setitem_def
      split: if_splits option.splits dest!: set_paging_Inr)

lemma paging_field_previous:
  "paging_field (PDict (dict_set rdict (PStr ''paging'') (paging_cursor offset limit h))) ''previous''
     = Some (if offset > 0 then PInt (offset - limit) else PNone)"
  by (simp add: paging_field_def dict_get_dict_set paging_cursor_def)

lemma paging_field_next:
  "paging_field (PDict (dict_set rdict (PStr ''paging'') (paging_cursor offset limit h))) ''next''
     = Some (if h then PInt (offset + limit) else PNone)"
  by (simp add: paging_field_def dict_get_dict_set paging_cursor_def)

subsection \<open>The operations on the sample responses\<close>

lemmas eval_defs =
  search_def seasonal_def ranking_def search_request_def seasonal_request_def ranking_request_def
  respond_def parse_as_def response_json_def Let_def set_paging_def setitem_def setitem2_def

lemmas sample_defs =
  mal_page_def naruto_item_def bleach_item_def naruto_def bleach_def
  collide_page_def paging_item_def paging_node_def
  twins_page_def kanon1_item_def kanon2_item_def kanon1_def kanon2_def

lemma search_sample:
  "search (respond 200 mal_page_body) (parse_as mal_page_body mal_page) (Mal_init ''key'')
     ''naruto'' 10 20 None PNone = Inr search_result"
  by (simp add: eval_defs sample_defs search_result_def)

lemma ranking_sample:
  "ranking (respond 200 mal_page_body) (parse_as mal_page_body mal_page) (Mal_init ''key'')
     ''all'' 10 0 None PNone = Inr ranking_result"
  by (simp add: eval_defs sample_defs ranking_result_def key_eq_def)

lemma seasonal_sample:
  "seasonal (respond 200 mal_page_body) (parse_as mal_page_body mal_page) (steady 11) (Mal_init ''key'')
     2026 None ''anime_score'' 10 5 None PNone = Inr seasonal_result"
  by (simp add: eval_defs sample_defs seasonal_result_def)

lemma sample_results_not_None:
  "search_result \<noteq> PNone" "ranking_result \<noteq> PNone" "seasonal_result \<noteq> PNone"
  "twins_result \<noteq> PNone" "collide_result \<noteq> PNone"
  by (simp_all add: search_result_def ranking_result_def seasonal_result_def twins_result_def
      collide_result_def)

lemma search_twins:
  "search (respond 200 twins_body) (parse_as twins_body twins_page) (Mal_init ''key'')
     ''kanon'' 10 0 None PNone = Inr twins_result"
  by (simp add: eval_defs sample_defs twins_result_def)

lemma search_collide:
  "search (respond 200 collide_body) (parse_as collide_body collide_page) (Mal_init ''key'')
     ''paging'' 10 0 None PNone = Inr collide_result"
  by (simp add: eval_defs sample_defs collide_result_def)

lemma seasonal_collide:
  "seasonal (respond 200 collide_body) (parse_as collide_body collide_page) (steady 11) (Mal_init ''key'')
     2026 None ''anime_score'' 10 0 None PNone = Inr collide_result"
  by (simp add: eval_defs sample_defs collide_result_def)

lemma sample_parse: "parse_as b v (body (respond st b req)) = Some v"
  by (simp add: parse_as_def respond_def)

lemma reports_next_object:
  "getitem jsd ''paging'' = Inr (PDict p) \<Longrightarrow>
     reports_next jsd = (dict_get p (PStr ''next'') \<noteq> None)"
  by (simp add: reports_next_def)

lemma reports_next_mal_page: "reports_next mal_page"
  by (simp add: reports_next_def mal_page_def)

lemma reports_next_twins_page: "\<not> reports_next twins_page"
  by (simp add: reports_next_def twins_page_def)

lemma reports_next_collide_page: "\<not> reports_next collide_page"
  by (simp add: reports_next_def collide_page_def)

lemma gateway_not_json: "parse_as manga_page_body (manga_page True) gateway_body = None"
  by (simp add: parse_as_def gateway_body_def manga_page_body_def)

lemma str_int_2026: "str_int 2026 = ''2026''"
  by (simp add: str_int_def str_nat.simps digit_char_def)

subsection \<open>The loop that files the records under their titles\<close>

lemma title_loop_step:
  assumes "title_loop (item # items) rd = Inr rd'"
  obtains n t where "node_of item = Inr n" "title_of item = Inr t"
    "title_loop items (dict_set rd t n) = Inr rd'"
  using assms
  by (auto simp: and_then_Inr_iff node_of_def title_of_def setitem_def split: if_splits)

lemma title_loop_append:
  "title_loop (xs @ ys) rd = and_then (title_loop xs rd) (title_loop ys)"
proof (induction xs arbitrary: rd)
  case Nil
  show ?case by simp
next
  case (Cons x xs)
  show ?case
  proof (cases "getitem x ''node''")
    case (Inl e)
    then show ?thesis by simp
  next
    case node: (Inr n)
    show ?thesis
    proof (cases "getitem n ''title''")
      case (Inl e)
      with node show ?thesis by simp
    next
      case title: (Inr t)
      show ?thesis
      proof (cases "setitem rd t n")
        case (Inl e)
        with node title show ?thesis by simp
      next
        case (Inr rd1)
        with node title show ?thesis by (simp add: Cons.IH)
      qed
    qed
  qed
qed

text \<open>Records filed later leave alone every key that none of their titles equals.\<close>

lemma title_loop_other_key:
  assumes "title_loop items rd = Inr rd'"
    and "list_all (\<lambda>item'. case title_of item' of Inl e \<Rightarrow> True | Inr t' \<Rightarrow> \<not> key_eq t' k) items"
  shows "dict_get rd' k = dict_get rd k"
  using assms
proof (induction items arbitrary: rd)
  case Nil
  then show ?case by simp
next
  case (Cons item items)
  from Cons.prems(1) obtain n t where nt: "node_of item = Inr n" "title_of item = Inr t"
    "title_loop items (dict_set rd t n) = Inr rd'"
    by (rule title_loop_step)
  from Cons.prems(2) nt(2) have ne: "\<not> key_eq k t"
    by (auto dest: key_eq_sym)
  from Cons.prems(2) have "dict_get rd' k = dict_get (dict_set rd t n) k"
    by (intro Cons.IH [OF nt(3)]) simp
  with ne show ?case
    by (simp add: dict_get_dict_set)
qed

lemma title_loop_filed:
  assumes loop: "title_loop (pre @ item # post) rd0 = Inr rd"
    and n: "node_of item = Inr n" and t: "title_of item = Inr t"
    and later: "list_all (\<lambda>item'. case title_of item' of Inl e \<Rightarrow> True | Inr t' \<Rightarrow> \<not> key_eq t' t) post"
  shows "dict_get rd t = Some n"
proof -
  from loop obtain rd1 where rest: "title_loop (item # post) rd1 = Inr rd"
    by (auto simp: title_loop_append and_then_Inr_iff)
  from rest n t have "title_loop post (dict_set rd1 t n) = Inr rd"
    by (elim title_loop_step) simp
  then have "dict_get rd t = dict_get (dict_set rd1 t n) t"
    using later by (rule title_loop_other_key)
  then show ?thesis
    by (simp add: dict_get_dict_set)
qed

lemma cursor_filed: "holds_cursor (PDict (dict_set rdict (PStr ''paging'') c)) c"
  by (simp add: holds_cursor_def dict_get_dict_set)

lemma filed_and_cursor:
  assumes loop: "title_loop (pre @ item # post) [] = Inr rdict"
    and s: "survives item post"
  shows "holds_record (PDict (dict_set rdict (PStr ''paging'') c)) item \<and>
    holds_cursor (PDict (dict_set rdict (PStr ''paging'') c)) c"
proof -
  from loop obtain rd1 where "title_loop (item # post) rd1 = Inr rdict"
    by (auto simp: title_loop_append and_then_Inr_iff)
  then obtain n t where n: "node_of item = Inr n" and t: "title_of item = Inr t"
    by (rule title_loop_step)
  from s t have ne: "t \<noteq> PStr ''paging''"
    and later: "list_all (\<lambda>item'. case title_of item' of Inl e \<Rightarrow> True | Inr t' \<Rightarrow> \<not> key_eq t' t) post"
    by (simp_all add: survives_def)
  have "dict_get rdict t = Some n"
    using loop n t later by (rule title_loop_filed)
  with n t ne show ?thesis
    by (simp add: holds_record_def holds_cursor_def dict_get_dict_set)
qed

section \<open>The paging cursor\<close>

text \<open>
  Claim C1. Whenever \<open>search\<close>, \<open>ranking\<close> or \<open>seasonal\<close> returns a mapping for the
  arguments \<open>offset\<close> and \<open>limit\<close>, the field \<open>previous\<close> of its paging cursor is
  \<open>offset - limit\<close> if \<open>offset > 0\<close> and None otherwise, and it is None only if
  \<open>offset \<le> 0\<close>.
\<close>

theorem previous_offset:
  "(search http loads self name limit offset fields' nsfw = Inr res1 \<and> res1 \<noteq> PNone
      \<longrightarrow> previous_as_specified offset limit res1) \<and>
   (ranking http loads self rank_type limit offset fields' nsfw = Inr res2 \<and> res2 \<noteq> PNone
      \<longrightarrow> previous_as_specified offset limit res2) \<and>
   (seasonal http loads today self year season sort' limit offset fields' nsfw = Inr res3 \<and>
    res3 \<noteq> PNone
      \<longrightarrow> previous_as_specified offset limit res3)"
proof (intro conjI impI; elim conjE)
  assume "search http loads self name limit offset fields' nsfw = Inr res1" "res1 \<noteq> PNone"
  then show "previous_as_specified offset limit res1"
    by (elim search_success) (auto simp: previous_as_specified_def paging_field_previous)
next
  assume "ranking http loads self rank_type limit offset fields' nsfw = Inr res2" "res2 \<noteq> PNone"
  then show "previous_as_specified offset limit res2"
    by (elim ranking_success) (auto simp: previous_as_specified_def paging_field_previous)
next
  assume "seasonal http loads today self year season sort' limit offset fields' nsfw = Inr res3"
    "res3 \<noteq> PNone"
  then show "previous_as_specified offset limit res3"
    by (elim seasonal_success) (auto simp: previous_as_specified_def paging_field_previous)
qed

theorem previous_offset_witness:
  "search (respond 200 mal_page_body) (parse_as mal_page_body mal_page) (Mal_init ''key'')
     ''naruto'' 10 20 None PNone = Inr search_result \<and>
   search_result \<noteq> PNone \<and>
   previous_as_specified 20 10 search_result \<and>
   paging_field search_result ''previous'' = Some (PInt 10) \<and>
   ranking (respond 200 mal_page_body) (parse_as mal_page_body mal_page) (Mal_init ''key'')
     ''all'' 10 0 None PNone = Inr ranking_result \<and>
   ranking_result \<noteq> PNone \<and>
   previous_as_specified 0 10 ranking_result \<and>
   paging_field ranking_result ''previous'' = Some PNone \<and>
   seasonal (respond 200 mal_page_body) (parse_as mal_page_body mal_page) (steady 11) (Mal_init ''key'')
     2026 None ''anime_score'' 10 5 None PNone = Inr seasonal_result \<and>
   seasonal_result \<noteq> PNone \<and>
   previous_as_specified 5 10 seasonal_result"
proof -
  note a = previous_offset [of "respond 200 mal_page_body" "parse_as mal_page_body mal_page"
      "Mal_init ''key''" "''naruto''" 10 20 None PNone search_result]
  note b = previous_offset [of "respond 200 mal_page_body" "parse_as mal_page_body mal_page"
      "Mal_init ''key''" _ 10 0 None PNone _ "''all''" ranking_result]
  note c = previous_offset [of "respond 200 mal_page_body" "parse_as mal_page_body mal_page"
      "Mal_init ''key''" _ 10 5 None PNone _ _ _ "steady 11" 2026 None "''anime_score''" seasonal_result]
  have "previous_as_specified 20 10 search_result"
    using a search_sample sample_results_not_None by blast
  moreover have "previous_as_specified 0 10 ranking_result"
    using b ranking_sample sample_results_not_None by blast
  moreover have "previous_as_specified 5 10 seasonal_result"
    using c seasonal_sample sample_results_not_None by blast
  moreover have "paging_field search_result ''previous'' = Some (PInt 10)"
    by (simp add: paging_field_def search_result_def)
  moreover have "paging_field ranking_result ''previous'' = Some PNone"
    by (simp add: paging_field_def ranking_result_def)
  ultimately show ?thesis
    using search_sample ranking_sample seasonal_sample sample_results_not_None by simp
qed

text \<open>
  Claim C2. Whenever \<open>search\<close>, \<open>ranking\<close> or \<open>seasonal\<close> returns a mapping, the field
  \<open>next\<close> of its paging cursor is None exactly when the payload reports no further page,
  and is \<open>offset + limit\<close> exactly when the payload reports one.
\<close>

theorem next_offset:
  "(search http loads self name limit offset fields' nsfw = Inr res1 \<and> res1 \<noteq> PNone \<and>
    loads (body (http (search_request self name limit offset fields' nsfw))) = Some jsd1
      \<longrightarrow> next_as_specified offset limit jsd1 res1) \<and>
   (ranking http loads self rank_type limit offset fields' nsfw = Inr res2 \<and> res2 \<noteq> PNone \<and>
    loads (body (http (ranking_request self rank_type limit offset fields' nsfw))) = Some jsd2
      \<longrightarrow> next_as_specified offset limit jsd2 res2) \<and>
   (seasonal http loads today self year season sort' limit offset fields' nsfw = Inr res3 \<and>
    res3 \<noteq> PNone \<and>
    loads (body (http (seasonal_request today self year season sort' limit offset fields' nsfw)))
      = Some jsd3
      \<longrightarrow> next_as_specified offset limit jsd3 res3)"
proof (intro conjI impI; elim conjE)
  assume "search http loads self name limit offset fields' nsfw = Inr res1" "res1 \<noteq> PNone"
    and "loads (body (http (search_request self name limit offset fields' nsfw))) = Some jsd1"
  then show "next_as_specified offset limit jsd1 res1"
    by (elim search_success) (auto simp: next_as_specified_def paging_field_next)
next
  assume "ranking http loads self rank_type limit offset fields' nsfw = Inr res2" "res2 \<noteq> PNone"
    and "loads (body (http (ranking_request self rank_type limit offset fields' nsfw))) = Some jsd2"
  then show "next_as_specified offset limit jsd2 res2"
    by (elim ranking_success) (auto simp: next_as_specified_def paging_field_next)
next
  assume "seasonal http loads today self year season sort' limit offset fields' nsfw = Inr res3"
    "res3 \<noteq> PNone"
    and "loads (body (http (seasonal_request today self year season sort' limit offset fields' nsfw)))
      = Some jsd3"
  then show "next_as_specified offset limit jsd3 res3"
    by (elim seasonal_success) (auto simp: next_as_specified_def paging_field_next)
qed

theorem next_offset_witness:
  "search (respond 200 twins_body) (parse_as twins_body twins_page) (Mal_init ''key'')
     ''kanon'' 10 0 None PNone = Inr twins_result \<and>
   twins_result \<noteq> PNone \<and>
   parse_as twins_body twins_page
     (body (respond 200 twins_body (search_request (Mal_init ''key'') ''kanon'' 10 0 None PNone)))
     = Some twins_page \<and>
   \<not> reports_next twins_page \<and>
   next_as_specified 0 10 twins_page twins_result \<and>
   paging_field twins_result ''next'' = Some PNone \<and>
   ranking (respond 200 mal_page_body) (parse_as mal_page_body mal_page) (Mal_init ''key'')
     ''all'' 10 0 None PNone = Inr ranking_result \<and>
   ranking_result \<noteq> PNone \<and>
   parse_as mal_page_body mal_page
     (body (respond 200 mal_page_body (ranking_request (Mal_init ''key'') ''all'' 10 0 None PNone)))
     = Some mal_page \<and>
   reports_next mal_page \<and>
   next_as_specified 0 10 mal_page ranking_result \<and>
   paging_field ranking_result ''next'' = Some (PInt 10) \<and>
   seasonal (respond 200 mal_page_body) (parse_as mal_page_body mal_page) (steady 11) (Mal_init ''key'')
     2026 None ''anime_score'' 10 5 None PNone = Inr seasonal_result \<and>
   seasonal_result \<noteq> PNone \<and>
   next_as_specified 5 10 mal_page seasonal_result \<and>
   paging_field seasonal_result ''next'' = Some (PInt 15)"
proof -
  note a = next_offset [of "respond 200 twins_body" "parse_as twins_body twins_page"
      "Mal_init ''key''" "''kanon''" 10 0 None PNone twins_result twins_page]
  note b = next_offset [of "respond 200 mal_page_body" "parse_as mal_page_body mal_page"
      "Mal_init ''key''" _ 10 0 None PNone _ _ "''all''" ranking_result mal_page]
  note c = next_offset [of "respond 200 mal_page_body" "parse_as mal_page_body mal_page"
      "Mal_init ''key''" _ 10 5 None PNone _ _ _ _ _ "steady 11" 2026 None "''anime_score''"
      seasonal_result mal_page]
  have "next_as_specified 0 10 twins_page twins_result"
    using a search_twins sample_results_not_None sample_parse by blast
  moreover have "next_as_specified 0 10 mal_page ranking_result"
    using b ranking_sample sample_results_not_None sample_parse by blast
  moreover have "next_as_specified 5 10 mal_page seasonal_result"
    using c seasonal_sample sample_results_not_None sample_parse by blast
  moreover have "paging_field twins_result ''next'' = Some PNone"
    by (simp add: paging_field_def twins_result_def)
  moreover have "paging_field ranking_result ''next'' = Some (PInt 10)"
    by (simp add: paging_field_def ranking_result_def)
  moreover have "paging_field seasonal_result ''next'' = Some (PInt 15)"
    by (simp add: paging_field_def seasonal_result_def)
  ultimately show ?thesis
    using search_twins ranking_sample seasonal_sample sample_results_not_None
      reports_next_mal_page reports_next_twins_page sample_parse by simp
qed

text \<open>
  Claim C3 says that the cursor never holds a negative offset: for \<open>offset > 0\<close> and
  \<open>limit > 0\<close> the field \<open>previous\<close> is None or a non-negative integer. The operations
  guard the field with \<open>offset > 0\<close> only, so a page that starts inside the first
  \<open>limit\<close> results gets a negative \<open>previous\<close>: with \<open>offset = 5\<close> and \<open>limit = 10\<close>,
  \<open>seasonal\<close> returns \<open>previous = -5\<close>.
\<close>

theorem previous_negative:
  "seasonal (respond 200 mal_page_body) (parse_as mal_page_body mal_page) (steady 11) (Mal_init ''key'')
     2026 None ''anime_score'' 10 5 None PNone = Inr seasonal_result \<and>
   paging_field seasonal_result ''previous'' = Some (PInt (- 5))"
  using seasonal_sample by (simp add: paging_field_def seasonal_result_def)

section \<open>Failures\<close>

text \<open>
  Claim C4 says that \<open>get\<close> fails with NotFound on status 404 and with RequestFailed on
  any other status outside 2xx, and never reports a failure by an ordinary null result.
  The operation returns None for every status other than 200, whatever the body, the
  parser and the arguments are; it raises nothing.
\<close>

theorem get_failure_returns_None:
  "get (respond 404 b) loads self id' fields' = Inr PNone \<and>
   get (respond 500 b) loads self id' fields' = Inr PNone"
  by (simp add: get_def respond_def)

text \<open>
  Claim C5. When the body of the response is not valid JSON, \<open>manga\<close> raises
  \<open>serializationFailed\<close> with the raw body and the status code, and returns nothing.
\<close>

theorem manga_invalid_json:
  "loads (body (http (manga_request term page perPage))) = None
     \<longrightarrow> manga http loads term page perPage =
           Inl (serializationFailed (body (http (manga_request term page perPage)))
                  (status_code (http (manga_request term page perPage)))) \<and>
         \<not> is_plain (manga http loads term page perPage) \<and>
         \<not> is_wrapper (manga http loads term page perPage)"
  by (simp add: manga_def Let_def is_plain_def is_wrapper_def)

theorem manga_invalid_json_witness:
  "parse_as manga_page_body (manga_page True)
     (body (respond 502 gateway_body (manga_request ''one piece'' 1 3))) = None \<and>
   manga (respond 502 gateway_body) (parse_as manga_page_body (manga_page True)) ''one piece'' 1 3 =
     Inl (serializationFailed gateway_body 502)"
  using manga_invalid_json [of "parse_as manga_page_body (manga_page True)"
      "respond 502 gateway_body" "''one piece''" 1 3] gateway_not_json
  by (simp add: respond_def)

text \<open>
  Claim C6. When the body parses as a JSON object that has an \<open>errors\<close> field, \<open>manga\<close>
  raises \<open>serverError\<close> with the raw body and the status code, and returns nothing.
\<close>

theorem manga_errors_field:
  "loads (body (http (manga_request term page perPage))) = Some (PDict d) \<and>
   dict_get d (PStr ''errors'') \<noteq> None
     \<longrightarrow> manga http loads term page perPage =
           Inl (serverError (body (http (manga_request term page perPage)))
                  (status_code (http (manga_request term page perPage)))) \<and>
         \<not> is_plain (manga http loads term page perPage) \<and>
         \<not> is_wrapper (manga http loads term page perPage)"
  by (auto simp: manga_def Let_def is_plain_def is_wrapper_def)

theorem manga_errors_field_witness:
  "parse_as rejected_body (PDict rejected_dict)
     (body (respond 429 rejected_body (manga_request ''one piece'' 1 3)))
     = Some (PDict rejected_dict) \<and>
   dict_get rejected_dict (PStr ''errors'') \<noteq> None \<and>
   manga (respond 429 rejected_body) (parse_as rejected_body (PDict rejected_dict))
     ''one piece'' 1 3 = Inl (serverError rejected_body 429)"
proof -
  have "dict_get rejected_dict (PStr ''errors'') \<noteq> None"
    by (simp add: rejected_dict_def)
  then show ?thesis
    using manga_errors_field [of "parse_as rejected_body (PDict rejected_dict)"
        "respond 429 rejected_body" "''one piece''" 1 3 rejected_dict]
    by (simp add: respond_def parse_as_def)
qed

section \<open>The result of the manga search\<close>

text \<open>
  Claim C7. For a response that parses, has no \<open>errors\<close> field and has the fields
  \<open>data.Page.pageInfo.hasNextPage\<close> and \<open>data.Page.media\<close>, \<open>manga\<close> returns the media
  list itself exactly when \<open>hasNextPage\<close> is false, and exactly when it is true an
  \<open>anilistWrapper\<close> built from the media list and the query payload, the headers and the
  endpoint URL of the request that was sent.
\<close>

theorem manga_page_or_wrapper:
  "loads (body (http (manga_request term page perPage))) = Some jsd \<and>
   py_in ''errors'' jsd = Inr False \<and>
   lookup_path jsd [''data'', ''Page'', ''pageInfo'', ''hasNextPage''] = Inr hasNextPage \<and>
   lookup_path jsd [''data'', ''Page'', ''media''] = Inr media
     \<longrightarrow> manga http loads term page perPage =
           Inr (if truthy hasNextPage
                then anilistWrapper media (json_params term page perPage)
                       anilist_header anilist_apiurl
                else Plain media) \<and>
         is_plain (manga http loads term page perPage) = (\<not> truthy hasNextPage) \<and>
         is_wrapper (manga http loads term page perPage) = truthy hasNextPage \<and>
         json (manga_request term page perPage) = Some (json_params term page perPage) \<and>
         headers (manga_request term page perPage) = anilist_header \<and>
         url (manga_request term page perPage) = anilist_apiurl"
  by (auto simp: manga_def Let_def is_plain_def is_wrapper_def and_then_Inr_iff manga_request_def)

theorem manga_page_or_wrapper_witness:
  "parse_as manga_page_body (manga_page True)
     (body (respond 200 manga_page_body (manga_request ''one piece'' 1 3)))
     = Some (manga_page True) \<and>
   py_in ''errors'' (manga_page True) = Inr False \<and>
   lookup_path (manga_page True) [''data'', ''Page'', ''pageInfo'', ''hasNextPage'']
     = Inr (PBool True) \<and>
   lookup_path (manga_page True) [''data'', ''Page'', ''media''] = Inr (PList [one_piece]) \<and>
   manga (respond 200 manga_page_body) (parse_as manga_page_body (manga_page True))
     ''one piece'' 1 3 =
     Inr (anilistWrapper (PList [one_piece]) (json_params ''one piece'' 1 3)
            anilist_header anilist_apiurl) \<and>
   parse_as manga_last_body (manga_page False)
     (body (respond 200 manga_last_body (manga_request ''one piece'' 2 3)))
     = Some (manga_page False) \<and>
   py_in ''errors'' (manga_page False) = Inr False \<and>
   lookup_path (manga_page False) [''data'', ''Page'', ''pageInfo'', ''hasNextPage'']
     = Inr (PBool False) \<and>
   lookup_path (manga_page False) [''data'', ''Page'', ''media''] = Inr (PList [one_piece]) \<and>
   manga (respond 200 manga_last_body) (parse_as manga_last_body (manga_page False))
     ''one piece'' 2 3 = Inr (Plain (PList [one_piece]))"
proof -
  have page:
    "py_in ''errors'' (manga_page b) = Inr False"
    "lookup_path (manga_page b) [''data'', ''Page'', ''pageInfo'', ''hasNextPage'']
       = Inr (PBool b)"
    "lookup_path (manga_page b) [''data'', ''Page'', ''media''] = Inr (PList [one_piece])"
    for b
    by (simp_all add: manga_page_def)
  note more = manga_page_or_wrapper [of "parse_as manga_page_body (manga_page True)"
      "respond 200 manga_page_body" "''one piece''" 1 3 "manga_page True"
      "PBool True" "PList [one_piece]"]
  note last = manga_page_or_wrapper [of "parse_as manga_last_body (manga_page False)"
      "respond 200 manga_last_body" "''one piece''" 2 3 "manga_page False"
      "PBool False" "PList [one_piece]"]
  from more last show ?thesis
    by (simp add: page sample_parse del: lookup_path.simps)
qed

section \<open>The season of \<open>seasonal\<close>\<close>

text \<open>
  Claim C8 says that every call of \<open>seasonal\<close> with the season unset puts into the request
  URL the season of the current month (months 1 to 3 winter, 4 to 6 spring, 7 to 9 summer,
  10 to 12 fall), and that a season that is given is used unchanged. Two calls show
  otherwise. The chain of tests reads the clock anew each time: when December turns into
  January after the first reading, the first test fails on 12, the second succeeds on 1,
  and the request goes to the URL of spring. And a season given as the empty string is
  not used: \<open>if not season\<close> takes it for unset, and the URL gets the derived season.
\<close>

theorem season_in_url_counterexample:
  "rollover 0 = 12 \<and> rollover 1 = 1 \<and>
   url (seasonal_request rollover (Mal_init ''key'') 2026 None ''anime_score'' 10 5 None PNone) =
     ''https://api.myanimelist.net/v2/anime/season/2026/spring'' \<and>
   seasonal (respond 200 mal_page_body) (parse_as mal_page_body mal_page) rollover
     (Mal_init ''key'') 2026 None ''anime_score'' 10 5 None PNone = Inr seasonal_result \<and>
   url (seasonal_request (steady 5) (Mal_init ''key'') 2026 (Some []) ''anime_score'' 10 5 None PNone) =
     ''https://api.myanimelist.net/v2/anime/season/2026/spring''"
  by (simp add: eval_defs reply_def sample_defs seasonal_result_def rollover_def steady_def
      myseason_def str_int_2026 Mal_init_def)

text \<open>
  Claim C8, amended. A call of \<open>seasonal\<close> sends the request \<open>seasonal_request\<close>: it
  returns None exactly when the response to that request has a status other than 200,
  and nothing else of the transport bears on its result. When every reading of the clock
  during the call shows one month and the season is None or the empty string, the URL of
  that request carries the season of the month: months 1 to 3 winter, 4 to 6 spring, 7 to 9 summer,
  10 to 12 fall. A season that is given and not empty is used unchanged, whatever the
  clock shows.
\<close>

theorem season_in_url:
  "(seasonal http loads today self year season sort' limit offset fields' nsfw = Inr PNone) =
     (status_code (http (seasonal_request today self year season sort' limit offset fields' nsfw))
        \<noteq> 200) \<and>
   seasonal http loads today self year season sort' limit offset fields' nsfw =
     seasonal (reply (http (seasonal_request today self year season sort' limit offset fields' nsfw)))
       loads today self year season sort' limit offset fields' nsfw \<and>
   (month_is today month \<and> (season = None \<or> season = Some []) \<longrightarrow>
      (1 \<le> month \<and> month \<le> 3 \<longrightarrow>
         url (seasonal_request today self year season sort' limit offset fields' nsfw) =
           season_url self year ''winter'') \<and>
      (4 \<le> month \<and> month \<le> 6 \<longrightarrow>
         url (seasonal_request today self year season sort' limit offset fields' nsfw) =
           season_url self year ''spring'') \<and>
      (7 \<le> month \<and> month \<le> 9 \<longrightarrow>
         url (seasonal_request today self year season sort' limit offset fields' nsfw) =
           season_url self year ''summer'') \<and>
      (10 \<le> month \<and> month \<le> 12 \<longrightarrow>
         url (seasonal_request today self year season sort' limit offset fields' nsfw) =
           season_url self year ''fall'')) \<and>
   (season = Some s \<and> s \<noteq> [] \<longrightarrow>
      url (seasonal_request today self year season sort' limit offset fields' nsfw) =
        season_url self year s)"
proof (intro conjI)
  show "(seasonal http loads today self year season sort' limit offset fields' nsfw = Inr PNone) =
     (status_code (http (seasonal_request today self year season sort' limit offset fields' nsfw))
        \<noteq> 200)"
    by (auto simp: seasonal_def Let_def and_then_Inr_iff)
next
  show "seasonal http loads today self year season sort' limit offset fields' nsfw =
     seasonal (reply (http (seasonal_request today self year season sort' limit offset fields' nsfw)))
       loads today self year season sort' limit offset fields' nsfw"
    by (simp add: seasonal_def reply_def)
next
  show "month_is today month \<and> (season = None \<or> season = Some []) \<longrightarrow>
      (1 \<le> month \<and> month \<le> 3 \<longrightarrow>
         url (seasonal_request today self year season sort' limit offset fields' nsfw) =
           season_url self year ''winter'') \<and>
      (4 \<le> month \<and> month \<le> 6 \<longrightarrow>
         url (seasonal_request today self year season sort' limit offset fields' nsfw) =
           season_url self year ''spring'') \<and>
      (7 \<le> month \<and> month \<le> 9 \<longrightarrow>
         url (seasonal_request today self year season sort' limit offset fields' nsfw) =
           season_url self year ''summer'') \<and>
      (10 \<le> month \<and> month \<le> 12 \<longrightarrow>
         url (seasonal_request today self year season sort' limit offset fields' nsfw) =
           season_url self year ''fall'')"
    by (auto simp: month_is_def seasonal_request_def myseason_def season_url_def)
next
  show "season = Some s \<and> s \<noteq> [] \<longrightarrow>
      url (seasonal_request today self year season sort' limit offset fields' nsfw) =
        season_url self year s"
    by (simp add: seasonal_request_def myseason_def season_url_def)
qed

theorem season_in_url_witness:
  "month_is (steady 1) 1 \<and>
   url (seasonal_request (steady 1) (Mal_init ''key'') 2026 None ''anime_score'' 10 5 None PNone) =
     ''https://api.myanimelist.net/v2/anime/season/2026/winter'' \<and>
   url (seasonal_request (steady 3) (Mal_init ''key'') 2026 None ''anime_score'' 10 5 None PNone) =
     ''https://api.myanimelist.net/v2/anime/season/2026/winter'' \<and>
   url (seasonal_request (steady 4) (Mal_init ''key'') 2026 None ''anime_score'' 10 5 None PNone) =
     ''https://api.myanimelist.net/v2/anime/season/2026/spring'' \<and>
   url (seasonal_request (steady 6) (Mal_init ''key'') 2026 None ''anime_score'' 10 5 None PNone) =
     ''https://api.myanimelist.net/v2/anime/season/2026/spring'' \<and>
   url (seasonal_request (steady 7) (Mal_init ''key'') 2026 None ''anime_score'' 10 5 None PNone) =
     ''https://api.myanimelist.net/v2/anime/season/2026/summer'' \<and>
   url (seasonal_request (steady 9) (Mal_init ''key'') 2026 (Some []) ''anime_score'' 10 5 None PNone) =
     ''https://api.myanimelist.net/v2/anime/season/2026/summer'' \<and>
   url (seasonal_request (steady 10) (Mal_init ''key'') 2026 None ''anime_score'' 10 5 None PNone) =
     ''https://api.myanimelist.net/v2/anime/season/2026/fall'' \<and>
   url (seasonal_request (steady 12) (Mal_init ''key'') 2026 None ''anime_score'' 10 5 None PNone) =
     ''https://api.myanimelist.net/v2/anime/season/2026/fall'' \<and>
   url (seasonal_request rollover (Mal_init ''key'') 2026 (Some ''summer'') ''anime_score''
          10 5 None PNone) =
     ''https://api.myanimelist.net/v2/anime/season/2026/summer'' \<and>
   status_code (respond 200 mal_page_body
     (seasonal_request (steady 11) (Mal_init ''key'') 2026 None ''anime_score'' 10 5 None PNone))
     = 200 \<and>
   seasonal (respond 200 mal_page_body) (parse_as mal_page_body mal_page) (steady 11)
     (Mal_init ''key'') 2026 None ''anime_score'' 10 5 None PNone \<noteq> Inr PNone \<and>
   status_code (respond 404 gateway_body
     (seasonal_request (steady 11) (Mal_init ''key'') 2026 None ''anime_score'' 10 5 None PNone))
     \<noteq> 200 \<and>
   seasonal (respond 404 gateway_body) (parse_as mal_page_body mal_page) (steady 11)
     (Mal_init ''key'') 2026 None ''anime_score'' 10 5 None PNone = Inr PNone"
proof -
  have steady: "month_is (steady m) m" for m
    by (simp add: month_is_def steady_def)
  have u: "season_url (Mal_init ''key'') 2026 x =
      ''https://api.myanimelist.net/v2/anime/season/2026/'' @ x" for x
    by (simp add: season_url_def Mal_init_def str_int_2026)
  note at = season_in_url [of _ "parse_as mal_page_body mal_page" _ "Mal_init ''key''" 2026 _
      "''anime_score''" 10 5 None PNone]
  have m1: "url (seasonal_request (steady 1) (Mal_init ''key'') 2026 None ''anime_score''
      10 5 None PNone) = ''https://api.myanimelist.net/v2/anime/season/2026/winter''"
    using at [of "respond 200 mal_page_body" "steady 1" None 1 _, THEN conjunct2, THEN conjunct2] by (simp add: steady u)
  have m3: "url (seasonal_request (steady 3) (Mal_init ''key'') 2026 None ''anime_score''
      10 5 None PNone) = ''https://api.myanimelist.net/v2/anime/season/2026/winter''"
    using at [of "respond 200 mal_page_body" "steady 3" None 3 _, THEN conjunct2, THEN conjunct2] by (simp add: steady u)
  have m4: "url (seasonal_request (steady 4) (Mal_init ''key'') 2026 None ''anime_score''
      10 5 None PNone) = ''https://api.myanimelist.net/v2/anime/season/2026/spring''"
    using at [of "respond 200 mal_page_body" "steady 4" None 4 _, THEN conjunct2, THEN conjunct2] by (simp add: steady u)
  have m6: "url (seasonal_request (steady 6) (Mal_init ''key'') 2026 None ''anime_score''
      10 5 None PNone) = ''https://api.myanimelist.net/v2/anime/season/2026/spring''"
    using at [of "respond 200 mal_page_body" "steady 6" None 6 _, THEN conjunct2, THEN conjunct2] by (simp add: steady u)
  have m7: "url (seasonal_request (steady 7) (Mal_init ''key'') 2026 None ''anime_score''
      10 5 None PNone) = ''https://api.myanimelist.net/v2/anime/season/2026/summer''"
    using at [of "respond 200 mal_page_body" "steady 7" None 7 _, THEN conjunct2, THEN conjunct2] by (simp add: steady u)
  have m9: "url (seasonal_request (steady 9) (Mal_init ''key'') 2026 (Some []) ''anime_score''
      10 5 None PNone) = ''https://api.myanimelist.net/v2/anime/season/2026/summer''"
    using at [of "respond 200 mal_page_body" "steady 9" "Some []" 9 _, THEN conjunct2, THEN conjunct2] by (simp add: steady u)
  have m10: "url (seasonal_request (steady 10) (Mal_init ''key'') 2026 None ''anime_score''
      10 5 None PNone) = ''https://api.myanimelist.net/v2/anime/season/2026/fall''"
    using at [of "respond 200 mal_page_body" "steady 10" None 10 _, THEN conjunct2, THEN conjunct2] by (simp add: steady u)
  have m12: "url (seasonal_request (steady 12) (Mal_init ''key'') 2026 None ''anime_score''
      10 5 None PNone) = ''https://api.myanimelist.net/v2/anime/season/2026/fall''"
    using at [of "respond 200 mal_page_body" "steady 12" None 12 _, THEN conjunct2, THEN conjunct2] by (simp add: steady u)
  have given: "url (seasonal_request rollover (Mal_init ''key'') 2026 (Some ''summer'')
      ''anime_score'' 10 5 None PNone) =
      ''https://api.myanimelist.net/v2/anime/season/2026/summer''"
    using at [of "respond 200 mal_page_body" rollover "Some ''summer''" _ "''summer''", THEN conjunct2, THEN conjunct2] by (simp add: u)
  have ok: "seasonal (respond 200 mal_page_body) (parse_as mal_page_body mal_page) (steady 11)
      (Mal_init ''key'') 2026 None ''anime_score'' 10 5 None PNone \<noteq> Inr PNone"
    using at [of "respond 200 mal_page_body" "steady 11" None, THEN conjunct1]
    by (simp add: respond_def)
  have failed: "seasonal (respond 404 gateway_body) (parse_as mal_page_body mal_page) (steady 11)
      (Mal_init ''key'') 2026 None ''anime_score'' 10 5 None PNone = Inr PNone"
    using at [of "respond 404 gateway_body" "steady 11" None, THEN conjunct1]
    by (simp add: respond_def)
  from m1 m3 m4 m6 m7 m9 m10 m12 given ok failed show ?thesis
    by (simp add: steady respond_def)
qed

section \<open>Records filed under their titles\<close>

text \<open>
  Claim C9 says that the mapping returned by \<open>search\<close> and \<open>seasonal\<close> holds every record
  of the payload under its title, besides the cursor under \<open>paging\<close>, also when a title is
  \<open>paging\<close>. Two payloads show otherwise: the record titled \<open>paging\<close> is replaced by the
  cursor, and of two records with one title only the later one is kept.
\<close>

theorem every_record_filed_counterexample:
  "search (respond 200 collide_body) (parse_as collide_body collide_page) (Mal_init ''key'')
     ''paging'' 10 0 None PNone = Inr collide_result \<and>
   seasonal (respond 200 collide_body) (parse_as collide_body collide_page) (steady 11) (Mal_init ''key'')
     2026 None ''anime_score'' 10 0 None PNone = Inr collide_result \<and>
   getitem collide_page ''data'' = Inr (PList [paging_item]) \<and>
   title_of paging_item = Inr (PStr ''paging'') \<and>
   node_of paging_item = Inr paging_node \<and>
   \<not> holds_record collide_result paging_item \<and>
   search (respond 200 twins_body) (parse_as twins_body twins_page) (Mal_init ''key'')
     ''kanon'' 10 0 None PNone = Inr twins_result \<and>
   getitem twins_page ''data'' = Inr (PList [kanon1_item, kanon2_item]) \<and>
   title_of kanon1_item = Inr (PStr ''Kanon'') \<and>
   node_of kanon1_item = Inr kanon1 \<and>
   \<not> holds_record twins_result kanon1_item"
  using search_collide seasonal_collide search_twins
  by (simp add: sample_defs title_of_def node_of_def holds_record_def collide_result_def
      twins_result_def)

text \<open>
  Claim C9, amended. Whenever \<open>search\<close> or \<open>seasonal\<close> returns a mapping, the mapping
  holds the paging cursor under the key \<open>paging\<close>, whatever records the payload has; and it
  holds under its title every record of the payload whose title is not \<open>paging\<close> and is
  not the title of a later record of the payload.
\<close>

theorem titles_and_cursor:
  "(search http loads self name limit offset fields' nsfw = Inr res1 \<and> res1 \<noteq> PNone \<and>
    loads (body (http (search_request self name limit offset fields' nsfw))) = Some jsd1
      \<longrightarrow> holds_cursor res1 (paging_cursor offset limit (reports_next jsd1)) \<and>
          (getitem jsd1 ''data'' = Inr (PList (pre1 @ item1 # post1)) \<and> survives item1 post1
             \<longrightarrow> holds_record res1 item1)) \<and>
   (seasonal http loads today self year season sort' limit offset fields' nsfw = Inr res2 \<and>
    res2 \<noteq> PNone \<and>
    loads (body (http (seasonal_request today self year season sort' limit offset fields' nsfw)))
      = Some jsd2
      \<longrightarrow> holds_cursor res2 (paging_cursor offset limit (reports_next jsd2)) \<and>
          (getitem jsd2 ''data'' = Inr (PList (pre2 @ item2 # post2)) \<and> survives item2 post2
             \<longrightarrow> holds_record res2 item2))"
proof (rule conjI; rule impI; elim conjE)
  assume "search http loads self name limit offset fields' nsfw = Inr res1" "res1 \<noteq> PNone"
    and jsd: "loads (body (http (search_request self name limit offset fields' nsfw))) = Some jsd1"
  then obtain items rdict where items: "and_then (getitem jsd1 ''data'') py_iter = Inr items"
    and loop: "title_loop items [] = Inr rdict"
    and res: "res1 = PDict (dict_set rdict (PStr ''paging'')
        (paging_cursor offset limit (reports_next jsd1)))"
    by (elim search_success) auto
  have "holds_cursor res1 (paging_cursor offset limit (reports_next jsd1))"
    by (simp add: res cursor_filed)
  moreover have "holds_record res1 item1"
    if "getitem jsd1 ''data'' = Inr (PList (pre1 @ item1 # post1))" "survives item1 post1"
    using that items loop by (auto simp: res intro!: filed_and_cursor [THEN conjunct1])
  ultimately show "holds_cursor res1 (paging_cursor offset limit (reports_next jsd1)) \<and>
      (getitem jsd1 ''data'' = Inr (PList (pre1 @ item1 # post1)) \<and> survives item1 post1
         \<longrightarrow> holds_record res1 item1)"
    by blast
next
  assume "seasonal http loads today self year season sort' limit offset fields' nsfw = Inr res2"
    "res2 \<noteq> PNone"
    and jsd: "loads (body (http (seasonal_request today self year season sort' limit offset fields' nsfw)))
      = Some jsd2"
  then obtain items rdict where items: "and_then (getitem jsd2 ''data'') py_iter = Inr items"
    and loop: "title_loop items [] = Inr rdict"
    and res: "res2 = PDict (dict_set rdict (PStr ''paging'')
        (paging_cursor offset limit (reports_next jsd2)))"
    by (elim seasonal_success) auto
  have "holds_cursor res2 (paging_cursor offset limit (reports_next jsd2))"
    by (simp add: res cursor_filed)
  moreover have "holds_record res2 item2"
    if "getitem jsd2 ''data'' = Inr (PList (pre2 @ item2 # post2))" "survives item2 post2"
    using that items loop by (auto simp: res intro!: filed_and_cursor [THEN conjunct1])
  ultimately show "holds_cursor res2 (paging_cursor offset limit (reports_next jsd2)) \<and>
      (getitem jsd2 ''data'' = Inr (PList (pre2 @ item2 # post2)) \<and> survives item2 post2
         \<longrightarrow> holds_record res2 item2)"
    by blast
qed

theorem titles_and_cursor_witness:
  "search (respond 200 mal_page_body) (parse_as mal_page_body mal_page) (Mal_init ''key'')
     ''naruto'' 10 20 None PNone = Inr search_result \<and>
   search_result \<noteq> PNone \<and>
   parse_as mal_page_body mal_page
     (body (respond 200 mal_page_body (search_request (Mal_init ''key'') ''naruto'' 10 20 None PNone)))
     = Some mal_page \<and>
   getitem mal_page ''data'' = Inr (PList ([] @ naruto_item # [bleach_item])) \<and>
   survives naruto_item [bleach_item] \<and>
   holds_record search_result naruto_item \<and>
   holds_cursor search_result (paging_cursor 20 10 (reports_next mal_page)) \<and>
   search (respond 200 collide_body) (parse_as collide_body collide_page) (Mal_init ''key'')
     ''paging'' 10 0 None PNone = Inr collide_result \<and>
   collide_result \<noteq> PNone \<and>
   holds_cursor collide_result (paging_cursor 0 10 (reports_next collide_page)) \<and>
   seasonal (respond 200 mal_page_body) (parse_as mal_page_body mal_page) (steady 11)
     (Mal_init ''key'') 2026 None ''anime_score'' 10 5 None PNone = Inr seasonal_result \<and>
   seasonal_result \<noteq> PNone \<and>
   getitem mal_page ''data'' = Inr (PList ([naruto_item] @ bleach_item # [])) \<and>
   survives bleach_item [] \<and>
   holds_record seasonal_result bleach_item \<and>
   holds_cursor seasonal_result (paging_cursor 5 10 (reports_next mal_page))"
proof -
  have data: "getitem mal_page ''data'' = Inr (PList ([] @ naruto_item # [bleach_item]))"
    "getitem mal_page ''data'' = Inr (PList ([naruto_item] @ bleach_item # []))"
    by (simp_all add: mal_page_def)
  have keep: "survives naruto_item [bleach_item]" "survives bleach_item []"
    by (simp_all add: survives_def title_of_def sample_defs)
  note a = titles_and_cursor [of "respond 200 mal_page_body" "parse_as mal_page_body mal_page"
      "Mal_init ''key''" "''naruto''" 10 20 None PNone search_result mal_page
      "[]" naruto_item "[bleach_item]"]
  note b = titles_and_cursor [of "respond 200 collide_body" "parse_as collide_body collide_page"
      "Mal_init ''key''" "''paging''" 10 0 None PNone collide_result collide_page]
  note c = titles_and_cursor [of "respond 200 mal_page_body" "parse_as mal_page_body mal_page"
      "Mal_init ''key''" _ 10 5 None PNone _ _ _ _ _ "steady 11" 2026 None "''anime_score''"
      seasonal_result mal_page "[naruto_item]" bleach_item "[]"]
  have "holds_record search_result naruto_item \<and>
      holds_cursor search_result (paging_cursor 20 10 (reports_next mal_page))"
    using a search_sample sample_results_not_None sample_parse data keep by blast
  moreover have "holds_cursor collide_result (paging_cursor 0 10 (reports_next collide_page))"
    using b search_collide sample_results_not_None sample_parse by blast
  moreover have "holds_record seasonal_result bleach_item \<and>
      holds_cursor seasonal_result (paging_cursor 5 10 (reports_next mal_page))"
    using c seasonal_sample sample_results_not_None sample_parse data keep by blast
  ultimately show ?thesis
    using search_sample search_collide seasonal_sample sample_results_not_None sample_parse
      data keep
    by simp
qed

section \<open>The \<open>nsfw\<close> argument of \<open>seasonal\<close>\<close>

text \<open>
  Claim C10. The request \<open>seasonal\<close> sends has no \<open>nsfw\<close> parameter and is the same for
  any two values of the \<open>nsfw\<close> argument, the other arguments being equal; so is the
  result of the call.
\<close>

theorem seasonal_ignores_nsfw:
  "seasonal_request today self year season sort' limit offset fields' nsfw1 =
     seasonal_request today self year season sort' limit offset fields' nsfw2 \<and>
   ''nsfw'' \<notin> fst ` set (params (seasonal_request today self year season sort' limit offset
                              fields' nsfw1)) \<and>
   seasonal http loads today self year season sort' limit offset fields' nsfw1 =
     seasonal http loads today self year season sort' limit offset fields' nsfw2"
  by (simp add: seasonal_request_def seasonal_def)

end
